theory Spec2Isabelle
  imports Complex_Main "HOL-Library.AList"
begin

section \<open>Python values shared by the modules\<close>

text \<open>
  Exceptions of the Python sources are values: every operation that can raise returns
  \<open>error + 'a\<close>, with \<open>Inl\<close> carrying the exception class.
\<close>

datatype error =
    KeyError
  | AttributeError
  | ZeroDivisionError
  | AssertionError
  | IndexError
  | ValueError

text \<open>
  A Python \<open>dict\<close> is an association list with distinct keys, in insertion order:
  \<open>map_of\<close> reads a key, \<open>AList.update\<close> overwrites the value of a present key in place
  and appends an absent key at the end, \<open>AList.delete\<close> removes a key and keeps the order
  of the others.
\<close>

definition dict_update :: "('k \<times> 'v) list \<Rightarrow> ('k \<times> 'v) list \<Rightarrow> ('k \<times> 'v) list" where
  "dict_update d e = fold (\<lambda>(k, v) acc. AList.update k v acc) e d"

section \<open>gensim/models/tokensurvey.py\<close>

text \<open>
  A token is any hashable Python value; the survey distinguishes plain ints (document
  tags) from everything else, so a token is a string or an int.
\<close>

datatype token = TStr string | TInt int

type_synonym tally = "(token \<times> int) list"

text \<open>\<open>collections.Counter\<close>: a missing key counts 0.\<close>

definition counter_get :: "tally \<Rightarrow> token \<Rightarrow> int" where
  "counter_get t k = (case map_of t k of None \<Rightarrow> 0 | Some c \<Rightarrow> c)"

text \<open>\<open>Counter.update(iterable)\<close>: one more for every element, in order.\<close>

definition counter_update_iterable :: "tally \<Rightarrow> token list \<Rightarrow> tally" where
  "counter_update_iterable t toks = fold (\<lambda>k acc. AList.update k (counter_get acc k + 1) acc) toks t"

text \<open>\<open>Counter.update(mapping)\<close>: adds the other mapping's counts instead of replacing.\<close>

definition counter_update_mapping :: "tally \<Rightarrow> tally \<Rightarrow> tally" where
  "counter_update_mapping t other =
     fold (\<lambda>(k, c) acc. AList.update k (c + counter_get acc k) acc) other t"

text \<open>
  \<open>Counter.most_common()\<close> is \<open>sorted(items, key=itemgetter(1), reverse=True)\<close>: descending
  counts, and Python's sort keeps equal counts in dict order also under \<open>reverse=True\<close>.
  \<open>sort_key\<close> is a stable insertion sort.
\<close>

definition most_common :: "tally \<Rightarrow> (token \<times> int) list" where
  "most_common t = sort_key (\<lambda>(k, c). - c) t"

text \<open>\<open>sys.maxsize\<close> of a 64-bit CPython.\<close>

definition sys_maxsize :: int where
  "sys_maxsize = 2 ^ 63 - 1"

text \<open>
  The survey object. \<open>prune_until\<close> is a Python float; its type is the parameter \<open>'f\<close>, and the
  one float computation of the module, \<open>int(self.prune_until * self.prune_at_size)\<close>, is the
  parameter \<open>fscale\<close> of \<open>update_with\<close>. The display name \<open>items\<close> only feeds log messages and
  is left out.
\<close>

record 'f TokenSurvey =
  prune_at_size :: int
  prune_until :: 'f
  tenured_tokens :: "token set"
  raw_tally :: tally
  corpus_count :: int
  total_tokens :: int
  max_raw_int :: int
  prune_count :: int
  prune_floor :: int
  prune_total :: int

type_synonym 'f callback = "'f TokenSurvey \<Rightarrow> error + 'f TokenSurvey"

text \<open>
  \<open>logger\<close> is \<open>logging.getLogger(__name__)\<close>, a \<open>logging.Logger\<close>. It has the methods
  \<open>debug\<close>, \<open>info\<close>, \<open>warning\<close>, \<open>warn\<close>, \<open>error\<close>, \<open>exception\<close>, \<open>critical\<close>, \<open>fatal\<close> and
  \<open>log\<close>, which only write a message and are no-ops here. It has no method \<open>severe\<close>:
  evaluating \<open>logger.severe\<close> raises \<open>AttributeError\<close>.
\<close>

definition logger_severe :: "error + unit" where
  "logger_severe = Inl AttributeError"

text \<open>\<open>tenure_token\<close>: "Make a token immune to low-frequency-based pruning."\<close>

definition tenure_token :: "'f TokenSurvey \<Rightarrow> token \<Rightarrow> 'f TokenSurvey" where
  "tenure_token self tok = self\<lparr>tenured_tokens := insert tok (tenured_tokens self)\<rparr>"

text \<open>\<open>prune_token\<close>: \<open>raw_tally.pop(token)\<close> raises \<open>KeyError\<close> on an absent token.\<close>

definition prune_token :: "'f TokenSurvey \<Rightarrow> token \<Rightarrow> error + 'f TokenSurvey" where
  "prune_token self tok =
     (case map_of (raw_tally self) tok of
        None \<Rightarrow> Inl KeyError
      | Some count \<Rightarrow>
          Inr (self\<lparr>raw_tally := AList.delete tok (raw_tally self),
                    prune_total := prune_total self + count,
                    prune_floor := max (prune_floor self) count,
                    prune_count := prune_count self + 1\<rparr>))"

text \<open>\<open>for callback in prune_callbacks: callback(self)\<close>\<close>

fun run_callbacks :: "'f callback list \<Rightarrow> 'f TokenSurvey \<Rightarrow> error + 'f TokenSurvey" where
  "run_callbacks [] self = Inr self"
| "run_callbacks (cb # cbs) self =
     (case cb self of Inl e \<Rightarrow> Inl e | Inr self' \<Rightarrow> run_callbacks cbs self')"

text \<open>
  The loop \<open>for key, count in infrequent_candidates\<close> of \<open>update_with\<close>. The result says
  whether the loop left through \<open>break\<close> (\<open>True\<close>) or ran out of candidates, which is when
  Python runs the \<open>else\<close> branch of the \<open>for\<close> (\<open>False\<close>). The locals
  \<open>highest_pruned_count\<close> and \<open>infrequent_pruned\<close> only feed the log message.
\<close>

fun prune_infrequent ::
  "int \<Rightarrow> (token \<times> int) list \<Rightarrow> 'f TokenSurvey \<Rightarrow> error + (bool \<times> 'f TokenSurvey)" where
  "prune_infrequent target_size [] self = Inr (False, self)"
| "prune_infrequent target_size ((key, count) # rest) self =
     (if int (length (raw_tally self)) \<le> target_size then Inr (True, self)
      else (case prune_token self key of
              Inl e \<Rightarrow> Inl e
            | Inr self' \<Rightarrow> prune_infrequent target_size rest self'))"

text \<open>
  The body of \<open>if reached_size >= effective_prune_at_size\<close>: callbacks, then the
  low-frequency prune. It returns the survey and the new \<open>effective_prune_at_size\<close>.
\<close>

definition prune_checkpoint ::
  "('f \<Rightarrow> int \<Rightarrow> int) \<Rightarrow> 'f callback list \<Rightarrow> int \<Rightarrow> 'f TokenSurvey \<Rightarrow>
   error + (int \<times> 'f TokenSurvey)" where
  "prune_checkpoint fscale prune_callbacks effective_prune_at_size self =
     (case run_callbacks prune_callbacks self of
        Inl e \<Rightarrow> Inl e
      | Inr self1 \<Rightarrow>
          (let target_size = fscale (prune_until self1) (prune_at_size self1);
               infrequent_candidates = rev (most_common (raw_tally self1))
           in case prune_infrequent target_size infrequent_candidates self1 of
                Inl e \<Rightarrow> Inl e
              | Inr (True, self2) \<Rightarrow> Inr (effective_prune_at_size, self2)
              | Inr (False, self2) \<Rightarrow>
                  (case logger_severe of
                     Inl e \<Rightarrow> Inl e
                   | Inr _ \<Rightarrow> Inr (effective_prune_at_size * 2, self2))))"

text \<open>
  The loop \<open>for tokens in corpus_iterable\<close>, with the locals \<open>effective_prune_at_size\<close>,
  \<open>item_count\<close> and \<open>total_tokens\<close>. \<open>item_count % progress_per\<close> raises
  \<open>ZeroDivisionError\<close> when \<open>progress_per\<close> is 0; the progress report itself only logs.
\<close>

fun survey_loop ::
  "('f \<Rightarrow> int \<Rightarrow> int) \<Rightarrow> 'f callback list \<Rightarrow> int \<Rightarrow> token list list \<Rightarrow>
   int \<Rightarrow> int \<Rightarrow> int \<Rightarrow> 'f TokenSurvey \<Rightarrow> error + (int \<times> int \<times> int \<times> 'f TokenSurvey)" where
  "survey_loop fscale prune_callbacks progress_per [] effective item_count ntokens self =
     Inr (effective, item_count, ntokens, self)"
| "survey_loop fscale prune_callbacks progress_per (tokens # rest) effective item_count ntokens self =
     (let self1 = self\<lparr>raw_tally := counter_update_iterable (raw_tally self) tokens\<rparr>;
          item_count1 = item_count + 1;
          ntokens1 = ntokens + int (length tokens);
          reached_size = int (length (raw_tally self1))
      in if progress_per = 0 then Inl ZeroDivisionError
         else if reached_size \<ge> effective then
           (case prune_checkpoint fscale prune_callbacks effective self1 of
              Inl e \<Rightarrow> Inl e
            | Inr (effective', self2) \<Rightarrow>
                survey_loop fscale prune_callbacks progress_per rest effective' item_count1 ntokens1 self2)
         else survey_loop fscale prune_callbacks progress_per rest effective item_count1 ntokens1 self1)"

text \<open>
  \<open>trim_rule_callback\<close>. \<open>keep_vocab_item\<close> lives in \<open>gensim.utils\<close>; the parameter \<open>keep\<close> is
  \<open>\<lambda>token count. keep_vocab_item(token, count, 0, trim_rule)\<close>.
\<close>

fun apply_trim_rule ::
  "(token \<Rightarrow> int \<Rightarrow> bool) \<Rightarrow> (token \<times> int) list \<Rightarrow> 'f TokenSurvey \<Rightarrow> error + 'f TokenSurvey" where
  "apply_trim_rule keep [] self = Inr self"
| "apply_trim_rule keep ((tok, count) # rest) self =
     (if \<not> keep tok count then
        (case prune_token self tok of
           Inl e \<Rightarrow> Inl e
         | Inr self' \<Rightarrow> apply_trim_rule keep rest self')
      else apply_trim_rule keep rest self)"

definition trim_rule_callback :: "(token \<Rightarrow> int \<Rightarrow> bool) \<Rightarrow> 'f callback" where
  "trim_rule_callback keep = (\<lambda>self. apply_trim_rule keep (most_common (raw_tally self)) self)"

text \<open>\<open>max(itertools.chain((-1,), (t for t in keys if isinstance(t, int))))\<close>\<close>

definition max_int_token :: "tally \<Rightarrow> int" where
  "max_int_token t = fold (\<lambda>(k, c) m. (case k of TInt i \<Rightarrow> max m i | TStr s \<Rightarrow> m)) t (- 1)"

definition update_with ::
  "('f \<Rightarrow> int \<Rightarrow> int) \<Rightarrow> 'f TokenSurvey \<Rightarrow> token list list \<Rightarrow> 'f callback list \<Rightarrow> int \<Rightarrow>
   (token \<Rightarrow> int \<Rightarrow> bool) option \<Rightarrow> error + 'f TokenSurvey" where
  "update_with fscale self corpus_iterable prune_callbacks0 progress_per trim_rule =
     (let prune_callbacks =
            (case trim_rule of
               None \<Rightarrow> prune_callbacks0
             | Some keep \<Rightarrow> prune_callbacks0 @ [trim_rule_callback keep])
      in case survey_loop fscale prune_callbacks progress_per corpus_iterable
                (prune_at_size self) 0 0 self of
           Inl e \<Rightarrow> Inl e
         | Inr (effective, item_count, ntokens, self1) \<Rightarrow>
             (case (if effective > prune_at_size self1 then logger_severe else Inr ()) of
                Inl e \<Rightarrow> Inl e
              | Inr _ \<Rightarrow>
                  (case run_callbacks prune_callbacks self1 of
                     Inl e \<Rightarrow> Inl e
                   | Inr self2 \<Rightarrow>
                       Inr (self2\<lparr>corpus_count := corpus_count self2 + item_count,
                                  total_tokens := total_tokens self2 + ntokens,
                                  max_raw_int := max_int_token (raw_tally self2)\<rparr>))))"

text \<open>
  \<open>TokenSurvey.__init__\<close>. \<open>None\<close> stands for an argument left at its \<open>None\<close> default;
  \<open>x or y\<close> takes \<open>y\<close> also for a zero \<open>prune_at_size\<close> and an empty \<open>raw_tally\<close>, and an
  empty \<open>corpus_iterable\<close> is falsy.
\<close>

definition TokenSurvey_init ::
  "('f \<Rightarrow> int \<Rightarrow> int) \<Rightarrow> token list list \<Rightarrow> tally option \<Rightarrow> int \<Rightarrow> int \<Rightarrow> int option \<Rightarrow> 'f \<Rightarrow>
   'f callback list \<Rightarrow> error + 'f TokenSurvey" where
  "TokenSurvey_init fscale corpus_iterable raw_tally0 corpus_count0 progress_per prune_at_size0
       prune_until0 prune_callbacks =
     (let tally0 = (case raw_tally0 of None \<Rightarrow> [] | Some t \<Rightarrow> t);
          self = \<lparr>prune_at_size =
                    (case prune_at_size0 of
                       None \<Rightarrow> sys_maxsize
                     | Some n \<Rightarrow> if n = 0 then sys_maxsize else n),
                  prune_until = prune_until0,
                  tenured_tokens = {},
                  raw_tally = tally0,
                  corpus_count = corpus_count0,
                  total_tokens = sum_list (map snd tally0),
                  max_raw_int = - 1,
                  prune_count = 0,
                  prune_floor = 0,
                  prune_total = 0\<rparr>
      in if corpus_iterable \<noteq> [] then
           update_with fscale self corpus_iterable prune_callbacks progress_per None
         else Inr self)"

text \<open>
  \<open>combine_survey\<close>: "Tally another survey's values into this, so this becomes a combined
  survey." The other survey is only read.
\<close>

definition combine_survey :: "'f TokenSurvey \<Rightarrow> 'f TokenSurvey \<Rightarrow> 'f TokenSurvey" where
  "combine_survey self other_survey =
     (let t = counter_update_mapping (raw_tally self) (raw_tally other_survey)
      in self\<lparr>raw_tally := t,
              corpus_count := corpus_count self + corpus_count other_survey,
              total_tokens := sum_list (map snd t),
              prune_count := prune_count self + prune_count other_survey,
              prune_floor := max (prune_floor self) (prune_floor other_survey),
              prune_total := prune_total self + prune_total other_survey\<rparr>)"

text \<open>
  A stand-in for the float product in concrete runs: \<open>prune_until\<close> as a rational,
  multiplied exactly and truncated toward zero as \<open>int()\<close> does. It agrees with IEEE
  doubles wherever both factors and the product are small dyadic numbers, as in the
  runs below (\<open>0.5 * 2\<close>, \<open>0.5 * 1\<close>, \<open>-0.5 * 2\<close>).
\<close>

definition exact_scale :: "rat \<Rightarrow> int \<Rightarrow> int" where
  "exact_scale p n = (let r = p * of_int n in if r \<ge> 0 then \<lfloor>r\<rfloor> else \<lceil>r\<rceil>)"

text \<open>The count-bearing fields of a survey, and the count of one token.\<close>

definition token_count :: "'f TokenSurvey \<Rightarrow> token \<Rightarrow> int" where
  "token_count s k = counter_get (raw_tally s) k"

definition count_fields :: "'f TokenSurvey \<Rightarrow> int \<times> int \<times> int \<times> int \<times> int" where
  "count_fields s = (corpus_count s, total_tokens s, prune_count s, prune_floor s, prune_total s)"

section \<open>gensim/models/utils_any2vec.py and gensim/models/fasttext.py\<close>

subsection \<open>The ngram hasher\<close>

text \<open>
  A word is the byte string of its UTF-8 encoding, an ngram likewise. The four functions
  that \<open>ft_ngram_hashes\<close> imports from the Cython extension \<open>gensim.models._utils_any2vec\<close>
  are not among the sources; they are the fields of a parameter.
\<close>

record any2vec_ext =
  compute_ngrams :: "string \<Rightarrow> nat \<Rightarrow> nat \<Rightarrow> string list"
  compute_ngrams_bytes :: "string \<Rightarrow> nat \<Rightarrow> nat \<Rightarrow> string list"
  ft_hash_broken :: "string \<Rightarrow> nat"
  ft_hash_bytes :: "string \<Rightarrow> nat"

text \<open>Python's \<open>a % b\<close> on non-negative ints raises \<open>ZeroDivisionError\<close> for \<open>b = 0\<close>.\<close>

definition py_mod :: "nat \<Rightarrow> nat \<Rightarrow> error + nat" where
  "py_mod a b = (if b = 0 then Inl ZeroDivisionError else Inr (a mod b))"

text \<open>
  The list comprehension \<open>[hash(n) % num_buckets for n in ngrams]\<close>, evaluated left to
  right; the first element that raises ends it.
\<close>

fun hash_ngrams :: "(string \<Rightarrow> nat) \<Rightarrow> nat \<Rightarrow> string list \<Rightarrow> error + nat list" where
  "hash_ngrams hash num_buckets [] = Inr []"
| "hash_ngrams hash num_buckets (n # ns) =
     (case py_mod (hash n) num_buckets of
        Inl e \<Rightarrow> Inl e
      | Inr x \<Rightarrow>
          (case hash_ngrams hash num_buckets ns of
             Inl e \<Rightarrow> Inl e
           | Inr xs \<Rightarrow> Inr (x # xs)))"

definition ft_ngram_hashes ::
  "any2vec_ext \<Rightarrow> string \<Rightarrow> nat \<Rightarrow> nat \<Rightarrow> nat \<Rightarrow> bool \<Rightarrow> error + nat list" where
  "ft_ngram_hashes ext word minn maxn num_buckets fb_compatible =
     (if fb_compatible then
        hash_ngrams (ft_hash_bytes ext) num_buckets (compute_ngrams_bytes ext word minn maxn)
      else
        hash_ngrams (ft_hash_broken ext) num_buckets (compute_ngrams ext word minn maxn))"

text \<open>The ngrams the hasher reads in the given hash mode.\<close>

definition ngrams_of :: "any2vec_ext \<Rightarrow> string \<Rightarrow> nat \<Rightarrow> nat \<Rightarrow> bool \<Rightarrow> string list" where
  "ngrams_of ext word minn maxn fb_compatible =
     (if fb_compatible then compute_ngrams_bytes ext word minn maxn
      else compute_ngrams ext word minn maxn)"

text \<open>The hash function the hasher applies in the given hash mode.\<close>

definition hash_of :: "any2vec_ext \<Rightarrow> bool \<Rightarrow> string \<Rightarrow> nat" where
  "hash_of ext fb_compatible = (if fb_compatible then ft_hash_bytes ext else ft_hash_broken ext)"

text \<open>\<open>_is_utf8_continue\<close>: \<open>_byte_to_int(b) & _MB_MASK == _MB_START\<close>.\<close>

definition is_utf8_continue :: "char \<Rightarrow> bool" where
  "is_utf8_continue b = (and (of_char b) (0xC0 :: nat) = 0x80)"

text \<open>A byte string cut before every byte that starts a character.\<close>

function utf8_chars :: "string \<Rightarrow> string list" where
  "utf8_chars [] = []"
| "utf8_chars (b # bs) =
     (b # takeWhile is_utf8_continue bs) # utf8_chars (dropWhile is_utf8_continue bs)"
  by pat_completeness auto
termination
  by (relation "measure length") (auto simp: length_dropWhile_le less_Suc_eq_le)

text \<open>
  Modelled from the spec: \<open>compute_ngrams_bytes\<close> and \<open>compute_ngrams\<close> of the Cython
  extension are missing. Section 4.1: bracket the word with \<open><\<close> and \<open>>\<close>, and extract
  every substring of \<open>minN..maxN\<close> characters whose boundaries fall on character
  boundaries, in ascending ngram length and then left-to-right start position. The legacy
  mode reads the same ngrams as decoded characters.
\<close>

definition spec_ngrams :: "string \<Rightarrow> nat \<Rightarrow> nat \<Rightarrow> string list" where
  "spec_ngrams word minn maxn =
     (let chars = utf8_chars (''<'' @ word @ ''>'')
      in concat (map (\<lambda>n. map (\<lambda>start. concat (take n (drop start chars)))
                               [0..<length chars + 1 - n])
                     [minn..<maxn + 1]))"

text \<open>
  Modelled from the spec: \<open>ft_hash_bytes\<close> of the Cython extension is missing. Section 4.1:
  32-bit FNV-1a over the raw ngram bytes, seed 2166136261, for each byte
  \<open>h = (h XOR b); h = (h * 16777619) mod 2^32\<close>.
\<close>

definition fnv1a :: "nat list \<Rightarrow> nat" where
  "fnv1a xs = fold (\<lambda>b h. ((xor h b) * 16777619) mod 2 ^ 32) xs 2166136261"

definition spec_hash_bytes :: "string \<Rightarrow> nat" where
  "spec_hash_bytes ngram = fnv1a (map of_char ngram)"

text \<open>
  Modelled from the spec: \<open>ft_hash_broken\<close> of the Cython extension is missing. Section 4.1
  says only that the legacy hash behaves differently and operates on the decoded
  characters of an ngram rather than on its raw bytes; the model runs the same recurrence
  over the code points of the characters. No property below depends on its values.
\<close>

definition utf8_code_point :: "string \<Rightarrow> nat" where
  "utf8_code_point bs =
     (case bs of
        [] \<Rightarrow> 0
      | b # rest \<Rightarrow>
          fold (\<lambda>c acc. acc * 64 + and (of_char c) (0x3F :: nat)) rest
            (if rest = [] then of_char b
             else and (of_char b) ((2 :: nat) ^ (6 - length rest) - 1)))"

definition spec_hash_broken :: "string \<Rightarrow> nat" where
  "spec_hash_broken ngram = fnv1a (map utf8_code_point (utf8_chars ngram))"

definition spec_ext :: any2vec_ext where
  "spec_ext = \<lparr>compute_ngrams = spec_ngrams,
               compute_ngrams_bytes = spec_ngrams,
               ft_hash_broken = spec_hash_broken,
               ft_hash_bytes = spec_hash_bytes\<rparr>"

subsection \<open>Matrices\<close>

text \<open>
  A two-dimensional \<open>numpy\<close> array is its column count and the list of its rows; a row
  is a value of the type \<open>'v\<close>, a vector of \<open>columns\<close> float32 numbers. The float32
  operations of \<open>numpy\<close> on rows and its seeded generator are the fields of a parameter:
  \<open>np_zeros n\<close> is \<open>np.zeros(n, dtype=np.float32)\<close>, \<open>np_add a b\<close> the row after \<open>a += b\<close>,
  \<open>np_div a n\<close> the row after \<open>a /= n\<close>, \<open>np_unit a\<close> is \<open>a / np.linalg.norm(a)\<close>, and
  \<open>np_uniform seed c k\<close> is row \<open>k\<close> of
  \<open>rand.uniform(-1.0 / c, 1.0 / c, (n, c)).astype(REAL)\<close> drawn right after
  \<open>rand.seed(seed)\<close>: the generator fills the array in row order, so row \<open>k\<close> does not
  depend on \<open>n\<close>. The rows that meet in one operation have the same width, which the
  store keeps at \<open>vector_size\<close>.
\<close>

record 'v ndarray =
  columns :: nat
  rowsOf :: "'v list"

record 'v numpy =
  np_zeros :: "nat \<Rightarrow> 'v"
  np_add :: "'v \<Rightarrow> 'v \<Rightarrow> 'v"
  np_div :: "'v \<Rightarrow> nat \<Rightarrow> 'v"
  np_unit :: "'v \<Rightarrow> 'v"
  np_uniform :: "int \<Rightarrow> nat \<Rightarrow> nat \<Rightarrow> 'v"

text \<open>
  \<open>_pad_random\<close>. \<open>-1.0 / columns\<close> raises \<open>ZeroDivisionError\<close> for a matrix without
  columns, and \<open>uniform\<close> raises \<open>ValueError\<close> for a negative row count. \<open>rand\<close> is the
  generator as its caller has just seeded it.
\<close>

definition pad_random :: "'v ndarray \<Rightarrow> int \<Rightarrow> (nat \<Rightarrow> nat \<Rightarrow> 'v) \<Rightarrow> error + 'v ndarray" where
  "pad_random m new_rows rand =
     (if columns m = 0 then Inl ZeroDivisionError
      else if new_rows < 0 then Inl ValueError
      else (let suffix = map (rand (columns m)) [0..<nat new_rows]
            in Inr (m\<lparr>rowsOf := rowsOf m @ suffix\<rparr>)))"

subsection \<open>FastTextKeyedVectors\<close>

text \<open>
  The store, once its matrices are allocated. \<open>vocab\<close> maps a word to the index of its
  \<open>Vocab\<close> entry; \<open>vectors\<close> is the inherited matrix of composite vectors.
\<close>

record 'v FastTextKeyedVectors =
  vector_size :: nat
  vocab :: "(string \<times> nat) list"
  index2key :: "string list"
  vectors :: "'v ndarray"
  vectors_vocab :: "'v ndarray"
  vectors_ngrams :: "'v ndarray"
  buckets_word :: "(nat \<times> nat list) list option"
  min_n :: nat
  max_n :: nat
  bucket :: nat
  compatible_hash :: bool

text \<open>\<open>__contains__\<close>: "This method **always** returns True, because of the way FastText works."\<close>

definition contains :: "'v FastTextKeyedVectors \<Rightarrow> string \<Rightarrow> bool" where
  "contains self word = True"

text \<open>
  The bucket indices of a word in a store with buckets: one per ngram, in extraction
  order, duplicates kept.
\<close>

definition buckets_of :: "any2vec_ext \<Rightarrow> 'v FastTextKeyedVectors \<Rightarrow> string \<Rightarrow> nat list" where
  "buckets_of ext self word =
     map (\<lambda>n. hash_of ext (compatible_hash self) n mod bucket self)
         (ngrams_of ext word (min_n self) (max_n self) (compatible_hash self))"

text \<open>\<open>for nh in ngram_hashes: vec += ngram_weights[nh]\<close>; a row index out of range raises.\<close>

fun add_rows :: "'v numpy \<Rightarrow> 'v ndarray \<Rightarrow> nat list \<Rightarrow> 'v \<Rightarrow> error + 'v" where
  "add_rows np ngram_weights [] vec = Inr vec"
| "add_rows np ngram_weights (nh # rest) vec =
     (if nh < length (rowsOf ngram_weights)
      then add_rows np ngram_weights rest (np_add np vec (rowsOf ngram_weights ! nh))
      else Inl IndexError)"

text \<open>
  \<open>get_vector\<close>. The branch of a vocabulary word calls the base class \<open>KeyedVectors\<close>,
  which is not among the sources: \<open>super_get_vector\<close> is a parameter.
\<close>

definition get_vector ::
  "'v numpy \<Rightarrow> any2vec_ext \<Rightarrow> ('v FastTextKeyedVectors \<Rightarrow> string \<Rightarrow> bool \<Rightarrow> error + 'v) \<Rightarrow>
   'v FastTextKeyedVectors \<Rightarrow> string \<Rightarrow> bool \<Rightarrow> error + 'v" where
  "get_vector np ext super_get_vector self word use_norm =
     (if map_of (vocab self) word \<noteq> None then super_get_vector self word use_norm
      else if bucket self = 0 then Inl KeyError
      else
        (let word_vec = np_zeros np (columns (vectors_ngrams self));
             ngram_weights = vectors_ngrams self
         in case ft_ngram_hashes ext word (min_n self) (max_n self) (bucket self)
                   (compatible_hash self) of
              Inl e \<Rightarrow> Inl e
            | Inr ngram_hashes \<Rightarrow>
                if length ngram_hashes = 0 then Inr word_vec
                else
                  (case add_rows np ngram_weights ngram_hashes word_vec of
                     Inl e \<Rightarrow> Inl e
                   | Inr word_vec1 \<Rightarrow>
                       (let word_vec2 = np_div np word_vec1 (length ngram_hashes)
                        in if use_norm then Inr (np_unit np word_vec2) else Inr word_vec2))))"

text \<open>
  \<open>_process_fasttext_vocab\<close>: the dict from a word's index to its bucket indices.
\<close>

fun process_vocab_loop ::
  "any2vec_ext \<Rightarrow> nat \<Rightarrow> nat \<Rightarrow> nat \<Rightarrow> bool \<Rightarrow> (string \<times> nat) list \<Rightarrow>
   (nat \<times> nat list) list \<Rightarrow> error + (nat \<times> nat list) list" where
  "process_vocab_loop ext minn maxn num_buckets compatible [] word_indices = Inr word_indices"
| "process_vocab_loop ext minn maxn num_buckets compatible ((word, index) # rest) word_indices =
     (case ft_ngram_hashes ext word minn maxn num_buckets compatible of
        Inl e \<Rightarrow> Inl e
      | Inr wi \<Rightarrow>
          process_vocab_loop ext minn maxn num_buckets compatible rest
            (AList.update index wi word_indices))"

definition process_fasttext_vocab ::
  "any2vec_ext \<Rightarrow> (string \<times> nat) list \<Rightarrow> nat \<Rightarrow> nat \<Rightarrow> nat \<Rightarrow> bool \<Rightarrow>
   error + (nat \<times> nat list) list" where
  "process_fasttext_vocab ext iterable minn maxn num_buckets compatible =
     (if num_buckets = 0 then
        Inr (fold (\<lambda>(w, index) acc. AList.update index [] acc) iterable [])
      else process_vocab_loop ext minn maxn num_buckets compatible iterable [])"

text \<open>
  \<open>init_ngrams_weights\<close>: the two matrices are drawn one after the other from the same
  seeded generator, so the bucket rows continue the stream after the vocabulary rows.
\<close>

definition init_ngrams_weights ::
  "'v numpy \<Rightarrow> any2vec_ext \<Rightarrow> 'v FastTextKeyedVectors \<Rightarrow> int \<Rightarrow> error + 'v FastTextKeyedVectors" where
  "init_ngrams_weights np ext self seed =
     (case process_fasttext_vocab ext (vocab self) (min_n self) (max_n self) (bucket self)
             (compatible_hash self) of
        Inl e \<Rightarrow> Inl e
      | Inr bw \<Rightarrow>
          if vector_size self = 0 then Inl ZeroDivisionError
          else
            (let rand = np_uniform np seed (vector_size self);
                 v = length (vocab self)
             in Inr (self\<lparr>buckets_word := Some bw,
                          vectors_vocab := \<lparr>columns = vector_size self,
                                             rowsOf = map rand [0..<v]\<rparr>,
                          vectors_ngrams := \<lparr>columns = vector_size self,
                                              rowsOf = map rand [v..<v + bucket self]\<rparr>\<rparr>)))"

text \<open>\<open>update_ngrams_weights\<close>\<close>

definition update_ngrams_weights ::
  "'v numpy \<Rightarrow> any2vec_ext \<Rightarrow> 'v FastTextKeyedVectors \<Rightarrow> int \<Rightarrow> int \<Rightarrow>
   error + 'v FastTextKeyedVectors" where
  "update_ngrams_weights np ext self seed old_vocab_len =
     (case process_fasttext_vocab ext (vocab self) (min_n self) (max_n self) (bucket self)
             (compatible_hash self) of
        Inl e \<Rightarrow> Inl e
      | Inr bw \<Rightarrow>
          (let new_vocab = int (length (vocab self)) - old_vocab_len
           in case pad_random (vectors_vocab self) new_vocab (np_uniform np seed) of
                Inl e \<Rightarrow> Inl e
              | Inr m \<Rightarrow> Inr (self\<lparr>buckets_word := Some bw, vectors_vocab := m\<rparr>)))"

text \<open>
  \<open>adjust_vectors\<close>. The loop over \<open>enumerate(self.index2key)\<close> updates the rows of the
  copy of \<open>vectors_vocab\<close> in place.
\<close>

fun adjust_rows ::
  "'v numpy \<Rightarrow> any2vec_ext \<Rightarrow> 'v FastTextKeyedVectors \<Rightarrow> (nat \<times> string) list \<Rightarrow> 'v list \<Rightarrow>
   error + 'v list" where
  "adjust_rows np ext self [] vecs = Inr vecs"
| "adjust_rows np ext self ((i, w) # rest) vecs =
     (case ft_ngram_hashes ext w (min_n self) (max_n self) (bucket self) (compatible_hash self) of
        Inl e \<Rightarrow> Inl e
      | Inr ngram_hashes \<Rightarrow>
          if i < length vecs then
            (case add_rows np (vectors_ngrams self) ngram_hashes (vecs ! i) of
               Inl e \<Rightarrow> Inl e
             | Inr v \<Rightarrow>
                 adjust_rows np ext self rest
                   (vecs[i := np_div np v (length ngram_hashes + 1)]))
          else Inl IndexError)"

definition adjust_vectors ::
  "'v numpy \<Rightarrow> any2vec_ext \<Rightarrow> 'v FastTextKeyedVectors \<Rightarrow> error + 'v FastTextKeyedVectors" where
  "adjust_vectors np ext self =
     (if bucket self = 0 then Inr self
      else
        (case adjust_rows np ext self (enumerate 0 (index2key self))
                (rowsOf (vectors_vocab self)) of
           Inl e \<Rightarrow> Inl e
         | Inr vecs \<Rightarrow> Inr (self\<lparr>vectors := (vectors_vocab self)\<lparr>rowsOf := vecs\<rparr>\<rparr>)))"

text \<open>
  The composite vector of a word with own-token vector \<open>v\<close>: the rows of the word's
  buckets added to \<open>v\<close> one after the other, duplicates included, and the sum divided
  by one plus the number of bucket indices.
\<close>

definition composite_row ::
  "'v numpy \<Rightarrow> any2vec_ext \<Rightarrow> 'v FastTextKeyedVectors \<Rightarrow> string \<Rightarrow> 'v \<Rightarrow> 'v" where
  "composite_row np ext self w v =
     np_div np
       (foldl (np_add np) v
          (map (\<lambda>b. rowsOf (vectors_ngrams self) ! b) (buckets_of ext self w)))
       (1 + length (buckets_of ext self w))"

subsection \<open>Unpacking the legacy bucket matrix\<close>

text \<open>
  \<open>m[[h, i]] = m[[i, h]]\<close>: the right-hand side copies rows \<open>i\<close> and \<open>h\<close>, then row \<open>h\<close>
  receives the old row \<open>i\<close> and row \<open>i\<close> the old row \<open>h\<close>.
\<close>

definition swap_rows :: "'v list \<Rightarrow> nat \<Rightarrow> nat \<Rightarrow> error + 'v list" where
  "swap_rows rows h i =
     (if h < length rows \<and> i < length rows then Inr (rows[h := rows ! i, i := rows ! h])
      else Inl IndexError)"

text \<open>The loop \<open>for h, i in swap.items()\<close> with its \<open>assert h != i\<close>.\<close>

fun apply_swaps :: "(nat \<times> nat) list \<Rightarrow> 'v list \<Rightarrow> error + 'v list" where
  "apply_swaps [] rows = Inr rows"
| "apply_swaps ((h, i) # rest) rows =
     (if h = i then Inl AssertionError
      else (case swap_rows rows h i of
              Inl e \<Rightarrow> Inl e
            | Inr rows' \<Rightarrow> apply_swaps rest rows'))"

text \<open>
  The dict \<open>swap\<close> of \<open>_unpack\<close>: the comprehension with \<open>h < i < orig_rows\<close>, updated with
  the comprehension with \<open>h >= orig_rows\<close>.
\<close>

definition swap_pairs :: "nat \<Rightarrow> (nat \<times> nat) list \<Rightarrow> (nat \<times> nat) list" where
  "swap_pairs orig_rows hash2index =
     dict_update (filter (\<lambda>(h, i). h < i \<and> i < orig_rows) hash2index)
                 (filter (\<lambda>(h, i). h \<ge> orig_rows) hash2index)"

definition unpack ::
  "'v numpy \<Rightarrow> 'v ndarray \<Rightarrow> nat \<Rightarrow> (nat \<times> nat) list \<Rightarrow> int \<Rightarrow> error + 'v ndarray" where
  "unpack np m num_rows hash2index seed =
     (let orig_rows = length (rowsOf m)
      in if orig_rows = num_rows then Inr m
         else if \<not> num_rows > orig_rows then Inl AssertionError
         else
           (case pad_random m (int num_rows - int orig_rows) (np_uniform np seed) of
              Inl e \<Rightarrow> Inl e
            | Inr m1 \<Rightarrow>
                (case apply_swaps (swap_pairs orig_rows hash2index) (rowsOf m1) of
                   Inl e \<Rightarrow> Inl e
                 | Inr rows \<Rightarrow> Inr (m1\<lparr>rowsOf := rows\<rparr>))))"

text \<open>The loop \<open>for src, dst in hash2index.items(): n[src] = m[dst]\<close> of \<open>_unpack_copy\<close>.\<close>

fun copy_rows :: "(nat \<times> nat) list \<Rightarrow> 'v list \<Rightarrow> 'v list \<Rightarrow> error + 'v list" where
  "copy_rows [] m n = Inr n"
| "copy_rows ((src, dst) # rest) m n =
     (if src < length n \<and> dst < length m then copy_rows rest m (n[src := m ! dst])
      else Inl IndexError)"

definition unpack_copy ::
  "'v numpy \<Rightarrow> 'v ndarray \<Rightarrow> nat \<Rightarrow> (nat \<times> nat) list \<Rightarrow> int \<Rightarrow> error + 'v ndarray" where
  "unpack_copy np m num_rows hash2index seed =
     (let rows = length (rowsOf m)
      in if rows = num_rows then Inr m
         else if \<not> num_rows > rows then Inl AssertionError
         else
           (case pad_random \<lparr>columns = columns m, rowsOf = []\<rparr> (int num_rows)
                   (np_uniform np seed) of
              Inl e \<Rightarrow> Inl e
            | Inr n \<Rightarrow>
                (case copy_rows hash2index (rowsOf m) (rowsOf n) of
                   Inl e \<Rightarrow> Inl e
                 | Inr rows' \<Rightarrow> Inr (n\<lparr>rowsOf := rows'\<rparr>))))"

text \<open>
  Swaps that touch every row at most once: no pair occurs twice, no pair swaps a row
  with itself, and two different pairs share no row.
\<close>

definition disjoint_swaps :: "(nat \<times> nat) list \<Rightarrow> bool" where
  "disjoint_swaps swaps \<longleftrightarrow>
     distinct swaps
     \<and> (\<forall>p \<in> set swaps. fst p \<noteq> snd p)
     \<and> (\<forall>p \<in> set swaps. \<forall>q \<in> set swaps. p \<noteq> q \<longrightarrow>
           fst p \<noteq> fst q \<and> fst p \<noteq> snd q \<and> snd p \<noteq> fst q \<and> snd p \<noteq> snd q)"

text \<open>
  The swap set as the specification words it, to be compared with \<open>swap_pairs\<close>: the
  pairs \<open>(h, i)\<close> with \<open>h < i < orig_rows\<close> or \<open>i \<ge> orig_rows\<close>, without the pairs
  \<open>h = i\<close>.
\<close>

definition spec_swap_pairs :: "nat \<Rightarrow> (nat \<times> nat) list \<Rightarrow> (nat \<times> nat) list" where
  "spec_swap_pairs orig_rows hash2index =
     filter (\<lambda>(h, i). h \<noteq> i \<and> ((h < i \<and> i < orig_rows) \<or> i \<ge> orig_rows)) hash2index"

section \<open>Concrete values for the runs below\<close>

text \<open>Three surveys as three shards of a corpus leave them.\<close>

definition shard_a :: "rat TokenSurvey" where
  "shard_a = \<lparr>prune_at_size = 4, prune_until = 1 / 2, tenured_tokens = {},
               raw_tally = [(TStr ''x'', 3), (TStr ''y'', 1)],
               corpus_count = 2, total_tokens = 4, max_raw_int = - 1,
               prune_count = 1, prune_floor = 2, prune_total = 2\<rparr>"

definition shard_b :: "rat TokenSurvey" where
  "shard_b = \<lparr>prune_at_size = 4, prune_until = 1 / 2, tenured_tokens = {},
               raw_tally = [(TStr ''y'', 5), (TStr ''z'', 2)],
               corpus_count = 3, total_tokens = 7, max_raw_int = - 1,
               prune_count = 0, prune_floor = 0, prune_total = 0\<rparr>"

definition shard_c :: "rat TokenSurvey" where
  "shard_c = \<lparr>prune_at_size = 4, prune_until = 1 / 2, tenured_tokens = {},
               raw_tally = [(TStr ''z'', 1), (TStr ''x'', 1), (TInt 7, 4)],
               corpus_count = 1, total_tokens = 6, max_raw_int = 7,
               prune_count = 2, prune_floor = 5, prune_total = 6\<rparr>"

text \<open>
  The run with a tenured token: \<open>s = TokenSurvey(prune_at_size=2)\<close>,
  \<open>s.tenure_token('a')\<close>, \<open>s.update_with([['a', 'b', 'b']])\<close>.
\<close>

definition tenure_run :: "error + rat TokenSurvey" where
  "tenure_run =
     (case TokenSurvey_init exact_scale [] None 0 10000 (Some 2) (1 / 2) [] of
        Inl e \<Rightarrow> Inl e
      | Inr s \<Rightarrow>
          update_with exact_scale (tenure_token s (TStr ''a''))
            [[TStr ''a'', TStr ''b'', TStr ''b'']] [] 10000 None)"

text \<open>
  Two runs that cannot stop at the target size:
  \<open>TokenSurvey(prune_at_size=1).update_with([['a']])\<close>, whose target is
  \<open>int(0.5 * 1) = 0\<close>, and
  \<open>TokenSurvey(prune_at_size=2, prune_until=-0.5).update_with([['a', 'b'], ['c']])\<close>,
  whose target is \<open>int(-0.5 * 2) = -1\<close>.
\<close>

definition overload_run :: "error + rat TokenSurvey" where
  "overload_run =
     (case TokenSurvey_init exact_scale [] None 0 10000 (Some 1) (1 / 2) [] of
        Inl e \<Rightarrow> Inl e
      | Inr s \<Rightarrow> update_with exact_scale s [[TStr ''a'']] [] 10000 None)"

definition overload_run_negative :: "error + rat TokenSurvey" where
  "overload_run_negative =
     (case TokenSurvey_init exact_scale [] None 0 10000 (Some 2) (- (1 / 2)) [] of
        Inl e \<Rightarrow> Inl e
      | Inr s \<Rightarrow>
          update_with exact_scale s [[TStr ''a'', TStr ''b''], [TStr ''c'']] [] 10000 None)"

text \<open>
  Row arithmetic over the reals and a fixed stream in place of the seeded generator, for
  concrete runs of the store. A row is the list of its entries.
\<close>

definition real_np :: "real list numpy" where
  "real_np = \<lparr>np_zeros = (\<lambda>n. replicate n 0),
               np_add = (\<lambda>a b. map2 (+) a b),
               np_div = (\<lambda>a n. map (\<lambda>x. x / real n) a),
               np_unit = (\<lambda>a. map (\<lambda>x. x / sqrt (sum_list (map (\<lambda>y. y * y) a))) a),
               np_uniform = (\<lambda>seed c k. replicate c (1 / (real c * real (k + 2))))\<rparr>"

text \<open>The base class is not consulted for words outside the vocabulary.\<close>

definition no_super :: "real list FastTextKeyedVectors \<Rightarrow> string \<Rightarrow> bool \<Rightarrow> error + real list" where
  "no_super self word use_norm = Inl KeyError"

text \<open>
  A store with the vocabulary \<open>{a: 0, b: 1}\<close>, two columns and three buckets, and the
  same store without subword buckets.
\<close>

definition store3 :: "real list FastTextKeyedVectors" where
  "store3 = \<lparr>vector_size = 2,
              vocab = [(''a'', 0), (''b'', 1)],
              index2key = [''a'', ''b''],
              vectors = \<lparr>columns = 2, rowsOf = [[0, 0], [0, 0]]\<rparr>,
              vectors_vocab = \<lparr>columns = 2, rowsOf = [[1, 2], [3, 4]]\<rparr>,
              vectors_ngrams = \<lparr>columns = 2, rowsOf = [[6, 0], [0, 6], [3, 3]]\<rparr>,
              buckets_word = None,
              min_n = 3, max_n = 3, bucket = 3, compatible_hash = True\<rparr>"

definition store0 :: "real list FastTextKeyedVectors" where
  "store0 = \<lparr>vector_size = 2,
              vocab = [(''a'', 0), (''b'', 1)],
              index2key = [''a'', ''b''],
              vectors = \<lparr>columns = 2, rowsOf = [[0, 0], [0, 0]]\<rparr>,
              vectors_vocab = \<lparr>columns = 2, rowsOf = [[1, 2], [3, 4]]\<rparr>,
              vectors_ngrams = \<lparr>columns = 2, rowsOf = []\<rparr>,
              buckets_word = None,
              min_n = 3, max_n = 3, bucket = 0, compatible_hash = True\<rparr>"

text \<open>The store with buckets after the vocabulary has gained the word \<open>c\<close>.\<close>

definition store3_grown :: "real list FastTextKeyedVectors" where
  "store3_grown = store3\<lparr>vocab := [(''a'', 0), (''b'', 1), (''c'', 2)],
                          index2key := [''a'', ''b'', ''c'']\<rparr>"

text \<open>A packed bucket matrix of two rows.\<close>

definition packed2 :: "real list ndarray" where
  "packed2 = \<lparr>columns = 2, rowsOf = [[1, 2], [3, 4]]\<rparr>"

text \<open>The packed matrix of three rows of scenario 4, with one column.\<close>

definition packed3 :: "real list ndarray" where
  "packed3 = \<lparr>columns = 1, rowsOf = [[10], [20], [30]]\<rparr>"

section \<open>Properties of the survey\<close>

subsection \<open>Counters\<close>

lemma counter_get_update:
  "counter_get (AList.update k v t) k' = (if k' = k then v else counter_get t k')"
  by (simp add: counter_get_def update_conv')

lemma counter_get_absent: "k \<notin> fst ` set t \<Longrightarrow> counter_get t k = 0"
  using map_of_eq_None_iff [of t k] by (simp add: counter_get_def)

lemma counter_get_Cons:
  "counter_get ((k, c) # t) k' = (if k' = k then c else counter_get t k')"
  by (simp add: counter_get_def)

lemma counter_update_mapping_Cons:
  "counter_update_mapping t ((k, c) # other) =
   counter_update_mapping (AList.update k (c + counter_get t k) t) other"
  by (simp add: counter_update_mapping_def)

lemma counter_get_update_mapping:
  "distinct (map fst other) \<Longrightarrow>
   counter_get (counter_update_mapping t other) k = counter_get t k + counter_get other k"
proof (induction other arbitrary: t)
  case Nil
  then show ?case by (simp add: counter_update_mapping_def counter_get_def)
next
  case (Cons p other)
  obtain k' c where p: "p = (k', c)" by (cases p)
  from Cons.prems p have notin: "k' \<notin> fst ` set other" and d: "distinct (map fst other)"
    by auto
  have "counter_get (counter_update_mapping t (p # other)) k =
      counter_get (AList.update k' (c + counter_get t k') t) k + counter_get other k"
    by (simp only: p counter_update_mapping_Cons Cons.IH [OF d])
  then show ?case
    using notin by (simp add: p counter_get_update counter_get_Cons counter_get_absent)
qed

lemma sum_snd_update:
  "sum_list (map snd (AList.update k v t)) = sum_list (map snd t) - counter_get t k + (v::int)"
  by (induction t) (auto simp: counter_get_def)

lemma sum_snd_update_mapping:
  "sum_list (map snd (counter_update_mapping t other)) =
   sum_list (map snd t) + sum_list (map snd other)"
proof (induction other arbitrary: t)
  case Nil
  then show ?case by (simp add: counter_update_mapping_def)
next
  case (Cons p other)
  obtain k' c where p: "p = (k', c)" by (cases p)
  show ?case
    unfolding p counter_update_mapping_Cons Cons.IH by (simp add: sum_snd_update)
qed

lemma distinct_update_mapping:
  "distinct (map fst t) \<Longrightarrow> distinct (map fst (counter_update_mapping t other))"
proof (induction other arbitrary: t)
  case Nil
  then show ?case by (simp add: counter_update_mapping_def)
next
  case (Cons p other)
  obtain k' c where p: "p = (k', c)" by (cases p)
  show ?case
    unfolding p counter_update_mapping_Cons using Cons.prems
    by (intro Cons.IH distinct_update)
qed

subsection \<open>Merging surveys\<close>

lemma raw_tally_combine:
  "raw_tally (combine_survey a b) = counter_update_mapping (raw_tally a) (raw_tally b)"
  by (simp add: combine_survey_def Let_def)

lemma token_count_combine:
  "distinct (map fst (raw_tally b)) \<Longrightarrow>
   token_count (combine_survey a b) k = token_count a k + token_count b k"
  by (simp add: token_count_def raw_tally_combine counter_get_update_mapping)

lemma count_fields_combine:
  "count_fields (combine_survey a b) =
     (corpus_count a + corpus_count b,
      sum_list (map snd (raw_tally a)) + sum_list (map snd (raw_tally b)),
      prune_count a + prune_count b,
      max (prune_floor a) (prune_floor b),
      prune_total a + prune_total b)"
  by (simp add: count_fields_def combine_survey_def Let_def sum_snd_update_mapping)

lemma distinct_combine:
  "distinct (map fst (raw_tally a)) \<Longrightarrow> distinct (map fst (raw_tally (combine_survey a b)))"
  by (simp add: raw_tally_combine distinct_update_mapping)

lemma sum_tally_combine:
  "sum_list (map snd (raw_tally (combine_survey a b))) =
   sum_list (map snd (raw_tally a)) + sum_list (map snd (raw_tally b))"
  by (simp add: raw_tally_combine sum_snd_update_mapping)

lemma fields_combine:
  "corpus_count (combine_survey a b) = corpus_count a + corpus_count b"
  "prune_count (combine_survey a b) = prune_count a + prune_count b"
  "prune_floor (combine_survey a b) = max (prune_floor a) (prune_floor b)"
  "prune_total (combine_survey a b) = prune_total a + prune_total b"
  by (simp_all add: combine_survey_def Let_def)

text \<open>
  C7. For all surveys \<open>a\<close>, \<open>b\<close>, \<open>c\<close> whose tallies are dicts (distinct keys),
  \<open>combine_survey\<close> is commutative and associative on the count-bearing fields: in either
  order and with either grouping, and also as \<open>merge(b, merge(a, c))\<close>, the count of
  every token and \<open>corpus_count\<close>, \<open>total_tokens\<close>, \<open>prune_count\<close>, \<open>prune_floor\<close> and
  \<open>prune_total\<close> are the same.
\<close>

theorem combine_survey_comm_assoc:
  assumes "distinct (map fst (raw_tally a))"
    and "distinct (map fst (raw_tally b))"
    and "distinct (map fst (raw_tally c))"
  shows "token_count (combine_survey a b) k = token_count (combine_survey b a) k
       \<and> count_fields (combine_survey a b) = count_fields (combine_survey b a)
       \<and> token_count (combine_survey a (combine_survey b c)) k
           = token_count (combine_survey (combine_survey a b) c) k
       \<and> count_fields (combine_survey a (combine_survey b c))
           = count_fields (combine_survey (combine_survey a b) c)
       \<and> token_count (combine_survey (combine_survey a b) c) k
           = token_count (combine_survey b (combine_survey a c)) k
       \<and> count_fields (combine_survey (combine_survey a b) c)
           = count_fields (combine_survey b (combine_survey a c))"
proof -
  have dbc: "distinct (map fst (raw_tally (combine_survey b c)))"
    and dac: "distinct (map fst (raw_tally (combine_survey a c)))"
    using assms by (simp_all add: distinct_combine)
  have t1: "token_count (combine_survey a b) k = token_count (combine_survey b a) k"
    using assms by (simp add: token_count_combine)
  have f1: "count_fields (combine_survey a b) = count_fields (combine_survey b a)"
    by (simp add: count_fields_combine max.commute)
  have t2: "token_count (combine_survey a (combine_survey b c)) k
           = token_count (combine_survey (combine_survey a b) c) k"
    using assms dbc by (simp add: token_count_combine)
  have f2: "count_fields (combine_survey a (combine_survey b c))
           = count_fields (combine_survey (combine_survey a b) c)"
    by (simp add: count_fields_combine fields_combine sum_tally_combine max.assoc)
  have t3: "token_count (combine_survey (combine_survey a b) c) k
           = token_count (combine_survey b (combine_survey a c)) k"
    using assms dac by (simp add: token_count_combine)
  have f3: "count_fields (combine_survey (combine_survey a b) c)
           = count_fields (combine_survey b (combine_survey a c))"
    by (simp add: count_fields_combine fields_combine sum_tally_combine
        max.left_commute max.commute)
  from t1 f1 t2 f2 t3 f3 show ?thesis by blast
qed

theorem combine_survey_comm_assoc_witness:
  "distinct (map fst (raw_tally shard_a)) \<and> distinct (map fst (raw_tally shard_b))
   \<and> distinct (map fst (raw_tally shard_c))
   \<and> token_count (combine_survey shard_a shard_b) (TStr ''y'') = 6
   \<and> token_count (combine_survey shard_b shard_a) (TStr ''y'') = 6
   \<and> count_fields (combine_survey shard_a (combine_survey shard_b shard_c))
       = count_fields (combine_survey (combine_survey shard_a shard_b) shard_c)
   \<and> count_fields (combine_survey (combine_survey shard_a shard_b) shard_c) = (6, 17, 3, 5, 8)"
  using combine_survey_comm_assoc [of shard_a shard_b shard_c "TStr ''y''"]
  by (simp add: shard_a_def shard_b_def shard_c_def token_count_def count_fields_def
      combine_survey_def counter_update_mapping_def counter_get_def)

subsection \<open>Pruning\<close>

lemmas survey_eval = TokenSurvey_init_def update_with_def exact_scale_def prune_checkpoint_def
     counter_update_iterable_def counter_get_def most_common_def prune_token_def logger_severe_def
     AList.delete_eq sys_maxsize_def tenure_token_def max_int_token_def

text \<open>
  C2. The claim: a token tenured via \<open>tenure_token\<close> is never removed by the
  low-frequency pruning step of \<open>update_with\<close>. The pruning loop never reads
  \<open>tenured_tokens\<close>: in the run \<open>tenure_run\<close> the tenured token \<open>'a'\<close>, with the lowest
  count, is the one the loop removes. The result is the survey with \<open>'a'\<close> tenured and
  gone from the tally, counted once in \<open>prune_count\<close>, \<open>prune_floor\<close> and \<open>prune_total\<close>.
\<close>

theorem tenured_token_is_pruned:
  "tenure_run = Inr \<lparr>prune_at_size = 2, prune_until = 1 / 2, tenured_tokens = {TStr ''a''},
       raw_tally = [(TStr ''b'', 2)], corpus_count = 1, total_tokens = 3, max_raw_int = - 1,
       prune_count = 1, prune_floor = 1, prune_total = 1\<rparr>"
  by (simp add: tenure_run_def survey_eval)

text \<open>
  Whenever the \<open>for\<close> loop over the candidates runs out, the checkpoint raises
  \<open>AttributeError\<close> from \<open>logger.severe\<close>, before the ceiling is doubled.
\<close>

lemma prune_checkpoint_overload:
  assumes "run_callbacks cbs self = Inr s1"
    and "prune_infrequent (fscale (prune_until s1) (prune_at_size s1))
           (rev (most_common (raw_tally s1))) s1 = Inr (False, s2)"
  shows "prune_checkpoint fscale cbs eff self = Inl AttributeError"
  using assms by (simp add: prune_checkpoint_def logger_severe_def)

text \<open>
  C8. The claim: when the low-frequency pruning step cannot reduce the table to the target
  size, the survey does not fail, doubles the effective ceiling and goes on scanning. In
  both runs the loop consumes every candidate without meeting its target at a loop head,
  and \<open>update_with\<close> ends with \<open>AttributeError\<close>.
\<close>

theorem overload_raises:
  "overload_run = Inl AttributeError \<and> overload_run_negative = Inl AttributeError"
  by (simp add: overload_run_def overload_run_negative_def survey_eval)

section \<open>Properties of the ngram hasher\<close>

lemma hash_ngrams_pos:
  "0 < B \<Longrightarrow> hash_ngrams h B ns = Inr (map (\<lambda>n. h n mod B) ns)"
  by (induction ns) (simp_all add: py_mod_def)

lemma hash_ngrams_zero:
  "hash_ngrams h 0 ns = (if ns = [] then Inr [] else Inl ZeroDivisionError)"
  by (cases ns) (simp_all add: py_mod_def)

lemma ft_ngram_hashes_pos:
  "0 < B \<Longrightarrow> ft_ngram_hashes ext w mn mx B fb =
     Inr (map (\<lambda>n. hash_of ext fb n mod B) (ngrams_of ext w mn mx fb))"
  by (simp add: ft_ngram_hashes_def hash_of_def ngrams_of_def hash_ngrams_pos)

lemma ft_ngram_hashes_buckets_of:
  "0 < bucket self \<Longrightarrow>
   ft_ngram_hashes ext w (min_n self) (max_n self) (bucket self) (compatible_hash self) =
     Inr (buckets_of ext self w)"
  by (simp add: ft_ngram_hashes_pos buckets_of_def)

lemma buckets_of_less:
  "0 < bucket self \<Longrightarrow> b \<in> set (buckets_of ext self w) \<Longrightarrow> b < bucket self"
  by (auto simp: buckets_of_def)

lemma spec_ngrams_cat: "spec_ngrams ''cat'' 3 3 = [''<ca'', ''cat'', ''at>'']"
  by (simp add: spec_ngrams_def is_utf8_continue_def)

lemma spec_ngrams_empty: "spec_ngrams '''' 3 3 = []"
  by (simp add: spec_ngrams_def is_utf8_continue_def)

lemma spec_ngrams_a: "spec_ngrams ''a'' 3 3 = [''<a>'']"
  by (simp add: spec_ngrams_def is_utf8_continue_def)

lemma spec_ngrams_b: "spec_ngrams ''b'' 3 3 = [''<b>'']"
  by (simp add: spec_ngrams_def is_utf8_continue_def)

lemma buckets_of_store3:
  "buckets_of spec_ext store3 ''cat'' = [2, 2, 0]"
  "buckets_of spec_ext store3 ''a'' = [1]"
  "buckets_of spec_ext store3 ''b'' = [0]"
  "buckets_of spec_ext store3 '''' = []"
  by (simp_all add: buckets_of_def store3_def ngrams_of_def hash_of_def spec_ext_def
      spec_ngrams_cat spec_ngrams_a spec_ngrams_b spec_ngrams_empty spec_hash_bytes_def fnv1a_def)

text \<open>
  C3, as amended. With zero buckets \<open>ft_ngram_hashes\<close> returns the empty list exactly for
  the words that have no ngram in the given range; for every word with an ngram it raises
  \<open>ZeroDivisionError\<close> at the first \<open>% num_buckets\<close>.
\<close>

theorem ft_ngram_hashes_no_buckets:
  "ft_ngram_hashes ext word minn maxn 0 fb =
     (if ngrams_of ext word minn maxn fb = [] then Inr [] else Inl ZeroDivisionError)"
  by (simp add: ft_ngram_hashes_def ngrams_of_def hash_ngrams_zero)

theorem ft_ngram_hashes_no_buckets_witness:
  "ft_ngram_hashes spec_ext '''' 3 3 0 True = Inr []
   \<and> ft_ngram_hashes spec_ext ''cat'' 3 3 0 True = Inl ZeroDivisionError"
  using ft_ngram_hashes_no_buckets [of spec_ext "''''" 3 3 True]
    ft_ngram_hashes_no_buckets [of spec_ext "''cat''" 3 3 True]
  by (simp add: ngrams_of_def spec_ext_def spec_ngrams_cat spec_ngrams_empty)

text \<open>
  C3 as stated (the empty list for every word, without an error) fails for the word
  \<open>cat\<close> with \<open>minn = maxn = 3\<close> in the compatible hash mode.
\<close>

theorem ft_ngram_hashes_no_buckets_counterexample:
  "ft_ngram_hashes spec_ext ''cat'' 3 3 0 True = Inl ZeroDivisionError"
  by (simp add: ft_ngram_hashes_def spec_ext_def spec_ngrams_def py_mod_def is_utf8_continue_def)

section \<open>Properties of the store\<close>

lemma add_rows_ok:
  "\<forall>nh \<in> set hs. nh < length (rowsOf w) \<Longrightarrow>
   add_rows np w hs v = Inr (foldl (np_add np) v (map (\<lambda>nh. rowsOf w ! nh) hs))"
  by (induction hs arbitrary: v) simp_all

text \<open>
  C5. For a word outside the vocabulary, \<open>get_vector\<close> raises \<open>KeyError\<close> when the store
  has no buckets; in a store whose bucket matrix has \<open>bucket\<close> rows it returns, for a
  word with ngrams (and the default \<open>use_norm=False\<close>), the rows of the word's buckets
  added to the zero vector in order and divided by their number; and for a word without
  ngrams it returns the zero vector.
\<close>

theorem get_vector_oov:
  assumes "map_of (vocab self) word = None"
  shows "(bucket self = 0 \<longrightarrow> get_vector np ext base self word use_norm = Inl KeyError)
       \<and> (0 < bucket self \<and> length (rowsOf (vectors_ngrams self)) = bucket self
            \<and> buckets_of ext self word \<noteq> [] \<longrightarrow>
          get_vector np ext base self word False =
            Inr (np_div np
                   (foldl (np_add np) (np_zeros np (columns (vectors_ngrams self)))
                      (map (\<lambda>b. rowsOf (vectors_ngrams self) ! b) (buckets_of ext self word)))
                   (length (buckets_of ext self word))))
       \<and> (0 < bucket self \<and> buckets_of ext self word = [] \<longrightarrow>
          get_vector np ext base self word use_norm =
            Inr (np_zeros np (columns (vectors_ngrams self))))"
proof (intro conjI impI)
  assume "bucket self = 0"
  with assms show "get_vector np ext base self word use_norm = Inl KeyError"
    by (simp add: get_vector_def)
next
  assume a: "0 < bucket self \<and> length (rowsOf (vectors_ngrams self)) = bucket self
            \<and> buckets_of ext self word \<noteq> []"
  then have "\<forall>nh \<in> set (buckets_of ext self word). nh < length (rowsOf (vectors_ngrams self))"
    by (auto dest: buckets_of_less)
  from add_rows_ok [OF this] a assms
  show "get_vector np ext base self word False =
            Inr (np_div np
                   (foldl (np_add np) (np_zeros np (columns (vectors_ngrams self)))
                      (map (\<lambda>b. rowsOf (vectors_ngrams self) ! b) (buckets_of ext self word)))
                   (length (buckets_of ext self word)))"
    by (simp add: get_vector_def ft_ngram_hashes_buckets_of Let_def)
next
  assume "0 < bucket self \<and> buckets_of ext self word = []"
  with assms show "get_vector np ext base self word use_norm =
            Inr (np_zeros np (columns (vectors_ngrams self)))"
    by (simp add: get_vector_def ft_ngram_hashes_buckets_of Let_def)
qed

theorem get_vector_oov_witness:
  "map_of (vocab store3) ''cat'' = None
   \<and> get_vector real_np spec_ext no_super store0 ''cat'' False = Inl KeyError
   \<and> get_vector real_np spec_ext no_super store3 ''cat'' False = Inr [4, 2]
   \<and> get_vector real_np spec_ext no_super store3 '''' False = Inr [0, 0]"
  using get_vector_oov [of store3 "''cat''" real_np spec_ext no_super False]
    get_vector_oov [of store3 "''''" real_np spec_ext no_super False]
    get_vector_oov [of store0 "''cat''" real_np spec_ext no_super False]
  by (simp add: buckets_of_store3) (simp add: store3_def store0_def real_np_def numeral_2_eq_2)

text \<open>
  C9. For every string and every store, with any bucket count, the membership test
  \<open>__contains__\<close> returns \<open>True\<close>, also for a word outside the vocabulary of a store without
  buckets, on which \<open>get_vector\<close> raises \<open>KeyError\<close>.
\<close>

theorem contains_always_True:
  "contains self word
   \<and> (map_of (vocab self) word = None \<and> bucket self = 0 \<longrightarrow>
        get_vector np ext base self word use_norm = Inl KeyError)"
  by (simp add: contains_def get_vector_def)

theorem contains_always_True_witness:
  "map_of (vocab store0) ''cat'' = None \<and> bucket store0 = 0
   \<and> contains store0 ''cat''
   \<and> get_vector real_np spec_ext no_super store0 ''cat'' False = Inl KeyError"
  using contains_always_True [of store0 "''cat''" real_np spec_ext no_super False]
  by (simp add: store0_def)

lemma process_vocab_loop_ok:
  "0 < B \<Longrightarrow> \<exists>bw. process_vocab_loop ext mn mx B fb items acc = Inr bw"
proof (induction items arbitrary: acc)
  case Nil
  then show ?case by simp
next
  case (Cons p items)
  obtain w i where p: "p = (w, i)" by (cases p)
  from Cons show ?case by (simp add: p ft_ngram_hashes_pos)
qed

lemma process_fasttext_vocab_ok:
  "\<exists>bw. process_fasttext_vocab ext items mn mx B fb = Inr bw"
  by (cases "B = 0") (simp_all add: process_fasttext_vocab_def process_vocab_loop_ok)

lemma pad_random_rows:
  "pad_random m n rand = Inr m' \<Longrightarrow>
   columns m' = columns m \<and> 0 < columns m \<and> 0 \<le> n
   \<and> rowsOf m' = rowsOf m @ map (rand (columns m)) [0..<nat n]"
  by (auto simp: pad_random_def Let_def split: if_splits)

lemma pad_random_ok:
  "0 < columns m \<Longrightarrow> 0 \<le> n \<Longrightarrow>
   pad_random m n rand = Inr (m\<lparr>rowsOf := rowsOf m @ map (rand (columns m)) [0..<nat n]\<rparr>)"
  by (simp add: pad_random_def Let_def)

lemma spec_ngrams_c: "spec_ngrams ''c'' 3 3 = [''<c>'']"
  by (simp add: spec_ngrams_def is_utf8_continue_def)

lemma replicate_two: "replicate 2 x = [x, x]"
  by (simp add: numeral_2_eq_2)

text \<open>
  C6. \<open>update_ngrams_weights\<close> only appends rows to \<open>vectors_vocab\<close>: whenever it returns,
  every row that was there keeps its content, the new row count is the old one plus the
  growth of the vocabulary, and \<open>vectors_ngrams\<close> and \<open>bucket\<close> are untouched, so the bucket
  matrix keeps its row count. It does return whenever the matrix has a column and the
  vocabulary has not shrunk.
\<close>

theorem update_ngrams_weights_appends:
  "(update_ngrams_weights np ext self seed old_vocab_len = Inr self' \<longrightarrow>
      vectors_ngrams self' = vectors_ngrams self
      \<and> bucket self' = bucket self
      \<and> length (rowsOf (vectors_ngrams self')) = length (rowsOf (vectors_ngrams self))
      \<and> (\<forall>i < length (rowsOf (vectors_vocab self)).
            rowsOf (vectors_vocab self') ! i = rowsOf (vectors_vocab self) ! i)
      \<and> int (length (rowsOf (vectors_vocab self'))) =
          int (length (rowsOf (vectors_vocab self))) + (int (length (vocab self)) - old_vocab_len)
      \<and> columns (vectors_vocab self') = columns (vectors_vocab self))
   \<and> (0 < columns (vectors_vocab self) \<and> old_vocab_len \<le> int (length (vocab self)) \<longrightarrow>
        (\<exists>s. update_ngrams_weights np ext self seed old_vocab_len = Inr s))"
proof (intro conjI impI)
  obtain bw where bw: "process_fasttext_vocab ext (vocab self) (min_n self) (max_n self)
      (bucket self) (compatible_hash self) = Inr bw"
    using process_fasttext_vocab_ok by blast
  {
    assume r: "update_ngrams_weights np ext self seed old_vocab_len = Inr self'"
    then obtain m where m: "pad_random (vectors_vocab self)
        (int (length (vocab self)) - old_vocab_len) (np_uniform np seed) = Inr m"
      and s: "self' = self\<lparr>buckets_word := Some bw, vectors_vocab := m\<rparr>"
      by (auto simp: update_ngrams_weights_def bw Let_def split: sum.splits)
    note pr = pad_random_rows [OF m]
    show "vectors_ngrams self' = vectors_ngrams self" by (simp add: s)
    show "bucket self' = bucket self" by (simp add: s)
    show "length (rowsOf (vectors_ngrams self')) = length (rowsOf (vectors_ngrams self))"
      by (simp add: s)
    show "\<forall>i < length (rowsOf (vectors_vocab self)).
            rowsOf (vectors_vocab self') ! i = rowsOf (vectors_vocab self) ! i"
      using pr by (simp add: s nth_append)
    show "int (length (rowsOf (vectors_vocab self'))) =
          int (length (rowsOf (vectors_vocab self))) + (int (length (vocab self)) - old_vocab_len)"
      using pr by (simp add: s)
    show "columns (vectors_vocab self') = columns (vectors_vocab self)"
      using pr by (simp add: s)
  }
  {
    assume "0 < columns (vectors_vocab self) \<and> old_vocab_len \<le> int (length (vocab self))"
    then show "\<exists>s. update_ngrams_weights np ext self seed old_vocab_len = Inr s"
      by (simp add: update_ngrams_weights_def bw Let_def pad_random_ok)
  }
qed

theorem update_ngrams_weights_appends_witness:
  "update_ngrams_weights real_np spec_ext store3_grown 1 2 =
     Inr (store3_grown\<lparr>buckets_word := Some [(0, [1]), (1, [0]), (2, [0])],
            vectors_vocab := \<lparr>columns = 2, rowsOf = [[1, 2], [3, 4], [1 / 4, 1 / 4]]\<rparr>\<rparr>)
   \<and> 0 < columns (vectors_vocab store3_grown) \<and> (2::int) \<le> int (length (vocab store3_grown))"
  using update_ngrams_weights_appends [of real_np spec_ext store3_grown 1 2]
  by (simp add: update_ngrams_weights_def process_fasttext_vocab_def store3_grown_def store3_def
      ft_ngram_hashes_def spec_ext_def spec_ngrams_a spec_ngrams_b spec_ngrams_c py_mod_def
      spec_hash_bytes_def fnv1a_def pad_random_def real_np_def replicate_two)

subsection \<open>Composite vectors\<close>

text \<open>
  The loop of \<open>adjust_vectors\<close> over the words \<open>k, k + 1, ...\<close> replaces exactly their rows
  by the composite rows and raises nothing, in a store whose bucket matrix has \<open>bucket\<close>
  rows.
\<close>

lemma adjust_rows_ok:
  assumes b: "0 < bucket self"
    and n: "length (rowsOf (vectors_ngrams self)) = bucket self"
  shows "k + length ws \<le> length vecs \<Longrightarrow>
    \<exists>vecs'. adjust_rows np ext self (enumerate k ws) vecs = Inr vecs'
      \<and> length vecs' = length vecs
      \<and> (\<forall>j < length vecs. vecs' ! j =
            (if k \<le> j \<and> j < k + length ws
             then composite_row np ext self (ws ! (j - k)) (vecs ! j)
             else vecs ! j))"
proof (induction ws arbitrary: k vecs)
  case Nil
  then show ?case by auto
next
  case (Cons w ws)
  let ?v = "composite_row np ext self w (vecs ! k)"
  let ?vecs1 = "vecs[k := ?v]"
  have k: "k < length vecs" using Cons.prems by simp
  have rows: "\<forall>nh \<in> set (buckets_of ext self w). nh < length (rowsOf (vectors_ngrams self))"
    using b n by (auto dest: buckets_of_less)
  have step: "adjust_rows np ext self (enumerate k (w # ws)) vecs =
      adjust_rows np ext self (enumerate (Suc k) ws) ?vecs1"
    using k b by (simp add: ft_ngram_hashes_buckets_of add_rows_ok [OF rows] composite_row_def)
  have "Suc k + length ws \<le> length ?vecs1" using Cons.prems by simp
  from Cons.IH [OF this] obtain vecs' where
    r: "adjust_rows np ext self (enumerate (Suc k) ws) ?vecs1 = Inr vecs'"
    and l: "length vecs' = length ?vecs1"
    and v: "\<forall>j < length ?vecs1. vecs' ! j =
            (if Suc k \<le> j \<and> j < Suc k + length ws
             then composite_row np ext self (ws ! (j - Suc k)) (?vecs1 ! j)
             else ?vecs1 ! j)"
    by blast
  have "\<forall>j < length vecs. vecs' ! j =
            (if k \<le> j \<and> j < k + length (w # ws)
             then composite_row np ext self ((w # ws) ! (j - k)) (vecs ! j)
             else vecs ! j)"
  proof (intro allI impI)
    fix j assume j: "j < length vecs"
    show "vecs' ! j =
            (if k \<le> j \<and> j < k + length (w # ws)
             then composite_row np ext self ((w # ws) ! (j - k)) (vecs ! j)
             else vecs ! j)"
    proof (cases "j = k")
      case True
      then show ?thesis using v j by simp
    next
      case False
      then show ?thesis using v j by (auto simp: nth_Cons')
    qed
  qed
  with step r l show ?case by simp
qed

text \<open>
  In a store with buckets, \<open>adjust_vectors\<close> leaves in \<open>vectors\<close>, for every vocabulary index
  \<open>i\<close>, the own-token row \<open>i\<close> plus the bucket rows of the word, divided by one plus their
  number; without buckets it returns at once and assigns nothing.
\<close>

theorem adjust_vectors_composite:
  "(bucket self = 0 \<longrightarrow> adjust_vectors np ext self = Inr self)
   \<and> (0 < bucket self \<and> length (rowsOf (vectors_ngrams self)) = bucket self
        \<and> length (index2key self) \<le> length (rowsOf (vectors_vocab self)) \<longrightarrow>
      (\<exists>self'. adjust_vectors np ext self = Inr self'
         \<and> vectors_vocab self' = vectors_vocab self
         \<and> vectors_ngrams self' = vectors_ngrams self
         \<and> length (rowsOf (vectors self')) = length (rowsOf (vectors_vocab self))
         \<and> (\<forall>i < length (index2key self).
               rowsOf (vectors self') ! i =
                 composite_row np ext self (index2key self ! i) (rowsOf (vectors_vocab self) ! i))))"
proof (intro conjI impI)
  assume "bucket self = 0"
  then show "adjust_vectors np ext self = Inr self" by (simp add: adjust_vectors_def)
next
  assume a: "0 < bucket self \<and> length (rowsOf (vectors_ngrams self)) = bucket self
        \<and> length (index2key self) \<le> length (rowsOf (vectors_vocab self))"
  then have a1: "0 < bucket self"
    and a2: "length (rowsOf (vectors_ngrams self)) = bucket self"
    and a3: "0 + length (index2key self) \<le> length (rowsOf (vectors_vocab self))"
    by simp_all
  from adjust_rows_ok [OF a1 a2 a3, of np ext] obtain vecs' where
    r: "adjust_rows np ext self (enumerate 0 (index2key self)) (rowsOf (vectors_vocab self))
          = Inr vecs'"
    and l: "length vecs' = length (rowsOf (vectors_vocab self))"
    and v: "\<forall>j < length (rowsOf (vectors_vocab self)). vecs' ! j =
            (if 0 \<le> j \<and> j < 0 + length (index2key self)
             then composite_row np ext self (index2key self ! (j - 0)) (rowsOf (vectors_vocab self) ! j)
             else rowsOf (vectors_vocab self) ! j)"
    by blast
  let ?s = "self\<lparr>vectors := (vectors_vocab self)\<lparr>rowsOf := vecs'\<rparr>\<rparr>"
  have "adjust_vectors np ext self = Inr ?s"
    using a r by (simp add: adjust_vectors_def)
  moreover have "\<forall>i < length (index2key self).
               rowsOf (vectors ?s) ! i =
                 composite_row np ext self (index2key self ! i) (rowsOf (vectors_vocab self) ! i)"
    using v a by simp
  ultimately show "\<exists>self'. adjust_vectors np ext self = Inr self'
         \<and> vectors_vocab self' = vectors_vocab self
         \<and> vectors_ngrams self' = vectors_ngrams self
         \<and> length (rowsOf (vectors self')) = length (rowsOf (vectors_vocab self))
         \<and> (\<forall>i < length (index2key self).
               rowsOf (vectors self') ! i =
                 composite_row np ext self (index2key self ! i) (rowsOf (vectors_vocab self) ! i))"
    using l by (intro exI [of _ ?s]) simp
qed

theorem adjust_vectors_composite_witness:
  "adjust_vectors real_np spec_ext store0 = Inr store0
   \<and> adjust_vectors real_np spec_ext store3 =
       Inr (store3\<lparr>vectors := \<lparr>columns = 2, rowsOf = [[1 / 2, 4], [9 / 2, 2]]\<rparr>\<rparr>)"
  using adjust_vectors_composite [of store0 real_np spec_ext]
    adjust_vectors_composite [of store3 real_np spec_ext]
  by (simp add: adjust_vectors_def store0_def)
    (simp add: ft_ngram_hashes_def spec_ext_def spec_ngrams_a spec_ngrams_b py_mod_def
      spec_hash_bytes_def fnv1a_def store3_def real_np_def)

text \<open>
  C4. The claim: \<open>adjust_vectors\<close> establishes the composite formula for every vocabulary
  index, and with \<open>B = 0\<close> it copies the own-token matrix, so that afterwards the composite
  matrix equals it. The first half is \<open>adjust_vectors_composite\<close>. For the second half,
  in the store \<open>store0\<close> without buckets, whose own-token rows differ from the rows of
  \<open>vectors\<close> as they do after training, \<open>adjust_vectors\<close> returns the store as it is:
  \<open>vectors\<close> still differs from \<open>vectors_vocab\<close>.
\<close>

theorem adjust_vectors_no_buckets_stale:
  "adjust_vectors real_np spec_ext store0 = Inr store0
   \<and> vectors store0 \<noteq> vectors_vocab store0"
  by (simp add: adjust_vectors_def store0_def)

subsection \<open>Unpacking the legacy bucket matrix\<close>

text \<open>
  When the hashes of the second comprehension are new keys, \<open>swap.update\<close> appends them:
  the swap dict is the two comprehensions one after the other.
\<close>

lemma update_absent: "k \<notin> fst ` set d \<Longrightarrow> AList.update k v d = d @ [(k, v)]"
  by (induction d) auto

lemma dict_update_append:
  "distinct (map fst e) \<Longrightarrow> fst ` set d \<inter> fst ` set e = {} \<Longrightarrow> dict_update d e = d @ e"
proof (induction e arbitrary: d)
  case Nil
  then show ?case by (simp add: dict_update_def)
next
  case (Cons p e)
  obtain k v where p: "p = (k, v)" by (cases p)
  from Cons.prems p have k: "k \<notin> fst ` set d" and d: "distinct (map fst e)"
    and kn: "k \<notin> fst ` set e" by auto
  have disj: "fst ` set (d @ [(k, v)]) \<inter> fst ` set e = {}"
    using Cons.prems kn p by auto
  have "dict_update d (p # e) = dict_update (d @ [(k, v)]) e"
    by (simp add: dict_update_def p update_absent [OF k])
  also have "\<dots> = (d @ [(k, v)]) @ e" by (rule Cons.IH [OF d disj])
  finally show ?case by (simp add: p)
qed

lemma swap_pairs_append:
  assumes "distinct (map fst hash2index)"
  shows "swap_pairs r hash2index =
     filter (\<lambda>(h, i). h < i \<and> i < r) hash2index @ filter (\<lambda>(h, i). h \<ge> r) hash2index"
proof -
  have d: "distinct (map fst (filter (\<lambda>(h, i). h \<ge> r) hash2index))"
    using assms by (simp add: distinct_map_filter)
  have "fst ` set (filter (\<lambda>(h, i). h < i \<and> i < r) hash2index)
        \<inter> fst ` set (filter (\<lambda>(h, i). h \<ge> r) hash2index) = {}"
    by auto
  from dict_update_append [OF d this] show ?thesis by (simp add: swap_pairs_def)
qed

text \<open>
  Disjoint swaps within the matrix all succeed; each exchanges its two rows, every other
  row is left alone, and the order of the swaps does not matter.
\<close>

lemma apply_swaps_disjoint:
  "disjoint_swaps S \<Longrightarrow> \<forall>p \<in> set S. fst p < length rows \<and> snd p < length rows \<Longrightarrow>
   \<exists>rows'. apply_swaps S rows = Inr rows' \<and> length rows' = length rows
     \<and> (\<forall>p \<in> set S. rows' ! fst p = rows ! snd p \<and> rows' ! snd p = rows ! fst p)
     \<and> (\<forall>k. k \<notin> fst ` set S \<union> snd ` set S \<longrightarrow> rows' ! k = rows ! k)"
proof (induction S arbitrary: rows)
  case Nil
  then show ?case by simp
next
  case (Cons p S)
  obtain h i where p: "p = (h, i)" by (cases p)
  let ?rows1 = "rows[h := rows ! i, i := rows ! h]"
  from Cons.prems(1) have ne: "h \<noteq> i" and dS: "disjoint_swaps S"
    and pS: "p \<notin> set S"
    and sep: "\<forall>q \<in> set S. h \<noteq> fst q \<and> h \<noteq> snd q \<and> i \<noteq> fst q \<and> i \<noteq> snd q"
    unfolding disjoint_swaps_def p by auto
  from Cons.prems(2) have hb: "h < length rows" and ib: "i < length rows"
    and bS: "\<forall>q \<in> set S. fst q < length ?rows1 \<and> snd q < length ?rows1"
    by (auto simp: p)
  from Cons.IH [OF dS bS] obtain rows' where
    r: "apply_swaps S ?rows1 = Inr rows'"
    and l: "length rows' = length ?rows1"
    and a: "\<forall>q \<in> set S. rows' ! fst q = ?rows1 ! snd q \<and> rows' ! snd q = ?rows1 ! fst q"
    and u: "\<forall>k. k \<notin> fst ` set S \<union> snd ` set S \<longrightarrow> rows' ! k = ?rows1 ! k"
    by blast
  have step: "apply_swaps (p # S) rows = Inr rows'"
    using ne hb ib r by (simp add: p swap_rows_def)
  have hS: "h \<notin> fst ` set S \<union> snd ` set S" and iS: "i \<notin> fst ` set S \<union> snd ` set S"
    using sep by auto
  have ph: "rows' ! h = rows ! i" using u hS ne hb ib by simp
  have pi: "rows' ! i = rows ! h" using u iS ne hb ib by simp
  have others: "\<forall>q \<in> set S. rows' ! fst q = rows ! snd q \<and> rows' ! snd q = rows ! fst q"
  proof
    fix q assume q: "q \<in> set S"
    with sep have "h \<noteq> fst q" "h \<noteq> snd q" "i \<noteq> fst q" "i \<noteq> snd q" by auto
    with a q show "rows' ! fst q = rows ! snd q \<and> rows' ! snd q = rows ! fst q" by simp
  qed
  have untouched: "\<forall>k. k \<notin> fst ` set (p # S) \<union> snd ` set (p # S) \<longrightarrow> rows' ! k = rows ! k"
  proof (intro allI impI)
    fix k assume "k \<notin> fst ` set (p # S) \<union> snd ` set (p # S)"
    then have "k \<noteq> h" "k \<noteq> i" "k \<notin> fst ` set S \<union> snd ` set S" by (auto simp: p)
    with u show "rows' ! k = rows ! k" by simp
  qed
  from step l ph pi others untouched show ?case by (auto simp: p)
qed

lemma apply_swaps_order:
  assumes "disjoint_swaps S" and "disjoint_swaps S'" and "set S = set S'"
    and "\<forall>p \<in> set S. fst p < length rows \<and> snd p < length rows"
  shows "apply_swaps S rows = apply_swaps S' rows"
proof -
  from apply_swaps_disjoint [OF assms(1) assms(4)] obtain r1 where
    r1: "apply_swaps S rows = Inr r1" and l1: "length r1 = length rows"
    and a1: "\<forall>p \<in> set S. r1 ! fst p = rows ! snd p \<and> r1 ! snd p = rows ! fst p"
    and u1: "\<forall>k. k \<notin> fst ` set S \<union> snd ` set S \<longrightarrow> r1 ! k = rows ! k"
    by blast
  have b': "\<forall>p \<in> set S'. fst p < length rows \<and> snd p < length rows"
    using assms(3,4) by simp
  from apply_swaps_disjoint [OF assms(2) b'] obtain r2 where
    r2: "apply_swaps S' rows = Inr r2" and l2: "length r2 = length rows"
    and a2: "\<forall>p \<in> set S'. r2 ! fst p = rows ! snd p \<and> r2 ! snd p = rows ! fst p"
    and u2: "\<forall>k. k \<notin> fst ` set S' \<union> snd ` set S' \<longrightarrow> r2 ! k = rows ! k"
    by blast
  have "r1 = r2"
  proof (rule nth_equalityI)
    show "length r1 = length r2" using l1 l2 by simp
  next
    fix k assume "k < length r1"
    show "r1 ! k = r2 ! k"
    proof (cases "k \<in> fst ` set S \<union> snd ` set S")
      case True
      then obtain p where p: "p \<in> set S" and k: "k = fst p \<or> k = snd p" by auto
      with a1 a2 assms(3) show ?thesis by auto
    next
      case False
      with u1 u2 assms(3) show ?thesis by simp
    qed
  qed
  with r1 r2 show ?thesis by simp
qed

lemma upt_two: "[0..<2] = [0, 1]"
  by (simp add: numeral_2_eq_2)

lemma upt_three: "[0..<3] = [0, 1, 2]"
  by (simp add: numeral_3_eq_3)

text \<open>
  C1. The claim: for every packed matrix with \<open>r\<close> rows, every \<open>B > r\<close> and every
  hash-to-index map, \<open>_unpack\<close> swaps the selected pairs, each once, afterwards row \<open>h\<close>
  holds the packed row \<open>i\<close> for every pair \<open>(h, i)\<close> of the map, and the result does not
  depend on the iteration order of the map. The docstring of \<open>_unpack\<close> says the same:
  the rows are rearranged \<open>such that the hashmap becomes the identity function\<close>.
  Two packed rows hold the vectors of the hashes 1 and 2, in this order, out of
  \<open>B = 3\<close> buckets: the map is \<open>{1: 0, 2: 1}\<close>. The pair \<open>(1, 0)\<close> has neither
  \<open>h < i < 2\<close> nor \<open>h \<ge> 2\<close>, so only \<open>(2, 1)\<close> is swapped: whatever the generator and the
  seed, row 1 of the result is the row that was drawn at random, and the vector of hash
  1 is left in row 0. With the map \<open>{1: 0}\<close> alone no row moves, and row 1 keeps the
  packed row 1.
\<close>

theorem unpack_hashmap_not_identity:
  "unpack np packed2 3 [(1, 0), (2, 1)] seed =
     Inr \<lparr>columns = 2, rowsOf = [[1, 2], np_uniform np seed 2 0, [3, 4]]\<rparr>
   \<and> unpack real_np packed2 3 [(1, 0), (2, 1)] 1 =
     Inr \<lparr>columns = 2, rowsOf = [[1, 2], [1 / 4, 1 / 4], [3, 4]]\<rparr>
   \<and> unpack np packed2 3 [(1, 0)] seed =
     Inr \<lparr>columns = 2, rowsOf = [[1, 2], [3, 4], np_uniform np seed 2 0]\<rparr>
   \<and> rowsOf packed2 ! 0 = [1, 2]"
  by (simp add: packed2_def unpack_def pad_random_def swap_pairs_def
      dict_update_def swap_rows_def real_np_def Let_def replicate_two)

text \<open>
  The pair \<open>(2, 0)\<close> with two packed rows points from the appended region into the packed
  rows: the code swaps it, the rule \<open>h < i < r\<close> or \<open>i \<ge> r\<close> does not select it.
\<close>

lemma swap_pairs_not_spec_rule:
  "swap_pairs 2 [(2, 0)] = [(2, 0)] \<and> spec_swap_pairs 2 [(2, 0)] = []"
  by (simp add: swap_pairs_def spec_swap_pairs_def dict_update_def)

text \<open>
  The map \<open>{0: 1, 1: 2}\<close> on three packed rows: its two swaps share row 1, and the two
  iteration orders give different matrices.
\<close>

lemma unpack_order_dependent:
  "unpack real_np packed3 4 [(0, 1), (1, 2)] 1 =
     Inr \<lparr>columns = 1, rowsOf = [[20], [30], [10], [1 / 2]]\<rparr>
   \<and> unpack real_np packed3 4 [(1, 2), (0, 1)] 1 =
     Inr \<lparr>columns = 1, rowsOf = [[30], [10], [20], [1 / 2]]\<rparr>"
  by (simp add: packed3_def unpack_def pad_random_def swap_pairs_def
      dict_update_def swap_rows_def real_np_def Let_def upt_two)

text \<open>
  The map \<open>{0: 1, 1: 0}\<close> on three packed rows: only the pair \<open>(0, 1)\<close> is swapped, which
  serves both pairs, in either iteration order.
\<close>

lemma unpack_two_cycle:
  "unpack real_np packed3 4 [(0, 1), (1, 0)] 1 =
     Inr \<lparr>columns = 1, rowsOf = [[20], [10], [30], [1 / 2]]\<rparr>
   \<and> unpack real_np packed3 4 [(1, 0), (0, 1)] 1 =
     Inr \<lparr>columns = 1, rowsOf = [[20], [10], [30], [1 / 2]]\<rparr>"
  by (simp add: packed3_def unpack_def pad_random_def swap_pairs_def
      dict_update_def swap_rows_def real_np_def Let_def upt_two)

text \<open>
  C10. The claim: \<open>_unpack\<close> and \<open>_unpack_copy\<close> return equal matrices for every packed
  matrix, bucket count, map and seed; the docstring of \<open>_unpack_copy\<close> reads
  \<open>Same as _unpack, but makes a copy of the matrix\<close>. With two packed rows, \<open>B = 3\<close>, the
  map \<open>{1: 0}\<close> and seed 1 they differ: \<open>_unpack\<close> keeps both packed rows in place and
  appends one random row, \<open>_unpack_copy\<close> draws three random rows and writes the packed
  row 0 into row 1.
\<close>

theorem unpack_differs_from_unpack_copy:
  "unpack real_np packed2 3 [(1, 0)] 1 =
     Inr \<lparr>columns = 2, rowsOf = [[1, 2], [3, 4], [1 / 4, 1 / 4]]\<rparr>
   \<and> unpack_copy real_np packed2 3 [(1, 0)] 1 =
     Inr \<lparr>columns = 2, rowsOf = [[1 / 4, 1 / 4], [1, 2], [1 / 8, 1 / 8]]\<rparr>"
  by (simp add: packed2_def unpack_def unpack_copy_def pad_random_def swap_pairs_def
      dict_update_def swap_rows_def real_np_def Let_def replicate_two upt_three)

end
